theory Spec2Isabelle
  imports Main
begin

section \<open>Multi-tenant authentication and authorization layer\<close>

text \<open>
  A shallow embedding of the middlewares of \<^verbatim>\<open>server/tenant-auth.ts\<close>
  (\<^verbatim>\<open>authenticateApiKey\<close>, \<^verbatim>\<open>authenticateHubLicense\<close>, \<^verbatim>\<open>trackApiUsage\<close>,
  \<^verbatim>\<open>requireRole\<close>, \<^verbatim>\<open>rateLimitByTier\<close>), of the two route pipelines of
  \<^verbatim>\<open>server/tenant-routes.ts\<close> that the properties below talk about
  (\<^verbatim>\<open>POST /api/tenant/hub-licenses\<close> and \<^verbatim>\<open>POST /api/hub/heartbeat\<close>), and of the
  tables of \<^verbatim>\<open>shared/tenant-schema.ts\<close> they read and write.

  Conventions.
  \<^item> A table is the list of its rows; a query is a \<open>filter\<close> over it, and the
    destructuring \<^verbatim>\<open>const [row] = await db.select()...\<close> takes the first row,
    \<open>None\<close> standing for \<^verbatim>\<open>undefined\<close>.
  \<^item> Timestamps are integers (milliseconds since the epoch); the clock reading of
    \<^verbatim>\<open>new Date()\<close> is a parameter.
  \<^item> An Express middleware either sends a response (\<open>Sent\<close>) or calls
    \<^verbatim>\<open>next()\<close> (\<open>Next\<close>), handing on the request and the response under
    construction. An asynchronous middleware also returns the store it leaves behind.
  \<^item> Columns that no modelled operation reads (billing contact, address, settings,
    features, created/updated stamps) are left out of the rows.
  \<^item> A string is the list of its code units, each below 256.
  \<^item> What the validation library decides about a request body, and what the database
    server decides about a row it is asked to insert or update (column types and
    lengths, defaults, keys, the id it assigns), is taken from a \<open>Platform\<close>
    parameter, so that the properties hold whatever these decide; \<open>declared\<close> is
    the platform that decides as the schema file declares. The one statement whose fate
    the schema file settles by itself, the usage upsert, is modelled directly.
  \<^item> A lost connection to the store (the \<^verbatim>\<open>catch\<close> branches answering 500 in the
    two authentication middlewares) is outside the model: a query on a list cannot fail.
  \<^item> A middleware that throws outside a \<^verbatim>\<open>try\<close> ends in \<open>Threw\<close>: Express hands
    the error to its error handling (which answers 500 unless the application, whose
    setup is not in these files, installs a handler that decides otherwise) and skips
    the remaining middlewares and the handler of the route.
\<close>

subsection \<open>Tables of shared/tenant-schema.ts\<close>

record Tenant =
  t_id :: int
  t_name :: string
  t_slug :: string
  t_apiKey :: string
  t_subscriptionTier :: string
  t_maxHubs :: int
  t_maxCameras :: int
  t_status :: string

record HubLicense =
  hl_id :: int
  hl_tenantId :: int
  hl_hubSerial :: string
  hl_licenseKey :: string
  hl_hubName :: "string option"
  hl_deploymentLocation :: "string option"
  hl_status :: string
  hl_maxCameras :: int
  hl_activatedAt :: "int option"
  hl_expiresAt :: "int option"

record TenantHub =
  h_id :: int
  h_tenantId :: int
  h_name :: string
  h_serialNumber :: string
  h_status :: string
  h_lastHeartbeat :: "int option"
  h_ipAddress :: "string option"
  h_version :: "string option"
  h_configuration :: string

record ApiUsage =
  u_id :: int
  u_tenantId :: int
  u_endpoint :: string
  u_method :: string
  u_requestCount :: int
  u_month :: string

text \<open>
  The store: the four tables, and the sequence behind the \<^verbatim>\<open>serial\<close> id of
  \<^verbatim>\<open>api_usage\<close>.
\<close>

record Db =
  tenants :: "Tenant list"
  hubLicenses :: "HubLicense list"
  tenantsHubs :: "TenantHub list"
  apiUsage :: "ApiUsage list"
  apiUsage_seq :: int

text \<open>
  The unique constraints the schema declares on \<^verbatim>\<open>api_usage\<close>, as column sets: its
  primary key only. Its two \<^verbatim>\<open>index(...)\<close> declarations (tenant and month; endpoint)
  are plain indexes.
\<close>

definition apiUsage_unique :: "string list list" where
  "apiUsage_unique = [[''id'']]"

subsection \<open>JavaScript values and operators\<close>

text \<open>
  The values that reach a response header: a string, or what a property lookup on the
  \<^verbatim>\<open>rateLimits\<close> object literal can yield, which is a number of its own,
  \<^verbatim>\<open>undefined\<close>, or a member inherited from \<^verbatim>\<open>Object.prototype\<close> (a
  function or an object, named here by its key).
\<close>

datatype JsValue = JsNumber int | JsString string | JsInherited string | JsUndefined

fun truthy :: "JsValue \<Rightarrow> bool" where
  "truthy (JsNumber n) = (n \<noteq> 0)"
| "truthy (JsString s) = (s \<noteq> [])"
| "truthy (JsInherited k) = True"
| "truthy JsUndefined = False"

text \<open>A string read from a header or the query: absent and empty are both falsy.\<close>

fun truthy_str :: "string option \<Rightarrow> bool" where
  "truthy_str None = False"
| "truthy_str (Some s) = (s \<noteq> [])"

text \<open>\<^verbatim>\<open>a || b\<close> on such strings.\<close>

definition js_or :: "string option \<Rightarrow> string option \<Rightarrow> string option" where
  "js_or a b = (if truthy_str a then a else b)"

text \<open>\<^verbatim>\<open>a || d\<close> where \<open>d\<close> is a string that is there.\<close>

definition orDefault :: "string option \<Rightarrow> string \<Rightarrow> string" where
  "orDefault a d = (case a of None \<Rightarrow> d | Some s \<Rightarrow> if s = [] then d else s)"

text \<open>\<^verbatim>\<open>Array.prototype.indexOf\<close>: the first position of the element, or -1.\<close>

fun indexOf :: "'a list \<Rightarrow> 'a \<Rightarrow> int" where
  "indexOf [] x = -1"
| "indexOf (y # ys) x =
     (if y = x then 0 else (let i = indexOf ys x in if i < 0 then -1 else i + 1))"





text \<open>\<^verbatim>\<open>s.split('-').pop()\<close>: what follows the last dash (all of \<open>s\<close> without one).\<close>

definition lastSegment :: "string \<Rightarrow> string" where
  "lastSegment s = rev (takeWhile (\<lambda>c. c \<noteq> CHR ''-'') (rev s))"

subsection \<open>Requests, responses, and the tenant context\<close>

record TenantSnapshot =
  s_id :: int
  s_name :: string
  s_slug :: string
  s_subscriptionTier :: string
  s_maxHubs :: int
  s_maxCameras :: int
  s_status :: string

record TenantUser =
  tu_id :: int
  tu_email :: string
  tu_role :: string
  tu_permissions :: "string list"

record TenantContext =
  tenantId :: int
  tenant :: TenantSnapshot
  user :: "TenantUser option"

text \<open>
  The part of an Express request the middlewares read: headers, query string,
  \<^verbatim>\<open>req.route?.path\<close>, \<^verbatim>\<open>req.path\<close>, the method, the parsed body, and the
  \<^verbatim>\<open>req.tenant\<close> field the authentication middlewares assign.
\<close>

record 'b Request =
  rq_headers :: "string \<rightharpoonup> string"
  rq_query :: "string \<rightharpoonup> string"
  rq_route :: "string option"
  rq_path :: string
  rq_method :: string
  rq_body :: 'b
  rq_tenant :: "TenantContext option"

datatype Json =
  ErrorMessage string string
| ErrorOnly string
| ValidationError
| LicenseJson HubLicense
| HubJson "TenantHub option" string

record Res =
  res_headers :: "(string \<times> JsValue) list"

record Response =
  statusCode :: nat
  headers :: "(string \<times> JsValue) list"
  json :: Json

datatype JsError = InvalidHeaderChar | InvalidHeaderValue

datatype 'b Flow = Sent Response | Next "'b Request" Res | Threw JsError

text \<open>Whether a middleware called \<^verbatim>\<open>next()\<close>.\<close>

fun passed :: "'b Flow \<Rightarrow> bool" where
  "passed (Next req res) = True"
| "passed (Sent r) = False"
| "passed (Threw e) = False"

text \<open>\<^verbatim>\<open>res.status(code).json(body)\<close>.\<close>

definition send :: "Res \<Rightarrow> nat \<Rightarrow> Json \<Rightarrow> Response" where
  "send res code body = \<lparr>statusCode = code, headers = res_headers res, json = body\<rparr>"

text \<open>
  \<^verbatim>\<open>res.setHeader(name, value)\<close> throws for the value \<^verbatim>\<open>undefined\<close>, and for a value whose
  string form holds a character other than a tab, the printable ASCII characters (codes
  32 to 126) and the codes 128 to 255. A number prints as its digits; a member inherited
  from \<^verbatim>\<open>Object.prototype\<close> prints as printable text (a function's source form, or
  \<^verbatim>\<open>[object Object]\<close>).
\<close>

definition validHeaderChar :: "char \<Rightarrow> bool" where
  "validHeaderChar c =
     (let n = (of_char c :: nat) in n = 9 \<or> (32 \<le> n \<and> n \<le> 126) \<or> 128 \<le> n)"

fun headerValueError :: "JsValue \<Rightarrow> JsError option" where
  "headerValueError JsUndefined = Some InvalidHeaderValue"
| "headerValueError (JsString s) =
     (if list_all validHeaderChar s then None else Some InvalidHeaderChar)"
| "headerValueError (JsNumber n) = None"
| "headerValueError (JsInherited k) = None"

definition setHeader :: "string \<Rightarrow> JsValue \<Rightarrow> Res \<Rightarrow> JsError + Res" where
  "setHeader name v res =
     (case headerValueError v of
        Some e \<Rightarrow> Inl e
      | None \<Rightarrow> Inr (res\<lparr>res_headers := res_headers res @ [(name, v)]\<rparr>))"

text \<open>The clock: \<^verbatim>\<open>new Date()\<close> and the first seven characters of its ISO rendering.\<close>

record Clock =
  now :: int
  isoMonth :: string

subsection \<open>Queries and the usage meter (server/tenant-auth.ts)\<close>

definition firstRow :: "'a list \<Rightarrow> 'a option" where
  "firstRow rows = (case rows of [] \<Rightarrow> None | r # rest \<Rightarrow> Some r)"

text \<open>
  \<^verbatim>\<open>db.select().from(tenants).where(and(eq(tenants.apiKey, apiKey),
  eq(tenants.status, "active")))\<close>: one query, both conditions.
\<close>

definition selectActiveTenantByApiKey :: "Db \<Rightarrow> string \<Rightarrow> Tenant list" where
  "selectActiveTenantByApiKey db apiKey =
     filter (\<lambda>t. t_apiKey t = apiKey \<and> t_status t = ''active'') (tenants db)"

text \<open>
  The license query: \<^verbatim>\<open>hubLicenses\<close> inner-joined with \<^verbatim>\<open>tenants\<close> on the
  tenant id, filtered on license key, hub serial, license status and tenant status.
\<close>

definition selectActiveLicense :: "Db \<Rightarrow> string \<Rightarrow> string \<Rightarrow> (HubLicense \<times> Tenant) list" where
  "selectActiveLicense db licenseKey hubSerial =
     filter (\<lambda>(l, t). hl_tenantId l = t_id t \<and> hl_licenseKey l = licenseKey \<and>
                      hl_hubSerial l = hubSerial \<and> hl_status l = ''active'' \<and>
                      t_status t = ''active'')
       (List.product (hubLicenses db) (tenants db))"

datatype DbError = NoMatchingConstraint | InvalidTextRepresentation

text \<open>
  \<^verbatim>\<open>ON CONFLICT (columns) DO UPDATE\<close> needs an arbiter: a unique constraint of the
  table on exactly those columns, in any order. Without one the store rejects the
  statement, whatever the rows are.
\<close>

definition arbiterExists :: "string list list \<Rightarrow> string list \<Rightarrow> bool" where
  "arbiterExists uniques target = list_ex (\<lambda>u. set u = set target) uniques"

text \<open>
  The value of the JavaScript expression \<^verbatim>\<open>apiUsage.requestCount + 1\<close>. The left
  operand is the column object of the schema, not a number, so \<^verbatim>\<open>+\<close> joins its string
  form and the string of 1.
\<close>

definition requestCountPlusOne :: string where
  "requestCountPlusOne = ''[object Object]'' @ ''1''"

text \<open>
  How the store reads a text parameter bound to an \<^verbatim>\<open>integer\<close> column: spaces, an
  optional sign, decimal digits, spaces; a value within 32 bits.
\<close>

definition isDigit :: "char \<Rightarrow> bool" where
  "isDigit c = (let n = (of_char c :: nat) in 48 \<le> n \<and> n \<le> 57)"

definition int4 :: "int \<Rightarrow> bool" where
  "int4 n = (- 2147483648 \<le> n \<and> n \<le> 2147483647)"

definition int4in :: "string \<Rightarrow> int option" where
  "int4in s =
     (let t = dropWhile (\<lambda>c. c = CHR '' '') s;
          negative = (case t of [] \<Rightarrow> False | c # r \<Rightarrow> c = CHR ''-'');
          u = (case t of [] \<Rightarrow> [] | c # r \<Rightarrow> if c = CHR ''-'' \<or> c = CHR ''+'' then r else t);
          d = takeWhile isDigit u;
          n = int (foldl (\<lambda>a c. 10 * a + (of_char c - 48)) 0 d);
          v = (if negative then - n else n)
      in if d \<noteq> [] \<and> list_all (\<lambda>c. c = CHR '' '') (dropWhile isDigit u) \<and> int4 v
         then Some v else None)"

definition sameUsageKey :: "int \<Rightarrow> string \<Rightarrow> string \<Rightarrow> string \<Rightarrow> ApiUsage \<Rightarrow> bool" where
  "sameUsageKey tid endpoint method month u =
     (u_tenantId u = tid \<and> u_endpoint u = endpoint \<and> u_method u = method \<and> u_month u = month)"

text \<open>
  \<^verbatim>\<open>db.insert(apiUsage).values({..., requestCount: 1}).onConflictDoUpdate({target:
  [tenantId, endpoint, method, month], set: {requestCount: apiUsage.requestCount + 1}})\<close>
  on a table with the unique constraints \<open>uniques\<close>. The value of the \<^verbatim>\<open>set\<close>
  clause travels as a parameter of the statement; the store refuses the statement when
  the parameter is not an integer, as it does when there is no arbiter. A statement that
  is accepted inserts the row with count 1, or on conflict sets the count to the
  parameter.
\<close>

definition insertUsageOnConflictDoUpdate ::
    "string list list \<Rightarrow> Db \<Rightarrow> int \<Rightarrow> string \<Rightarrow> string \<Rightarrow> string \<Rightarrow> DbError + Db" where
  "insertUsageOnConflictDoUpdate uniques db tid endpoint method month =
     (if arbiterExists uniques [''tenant_id'', ''endpoint'', ''method'', ''month''] then
        (case int4in requestCountPlusOne of
           None \<Rightarrow> Inl InvalidTextRepresentation
         | Some n \<Rightarrow>
             if list_ex (sameUsageKey tid endpoint method month) (apiUsage db) then
               Inr (db\<lparr>apiUsage :=
                      map (\<lambda>u. if sameUsageKey tid endpoint method month u
                               then u\<lparr>u_requestCount := n\<rparr> else u)
                        (apiUsage db),
                    apiUsage_seq := apiUsage_seq db + 1\<rparr>)
             else
               Inr (db\<lparr>apiUsage := apiUsage db @
                      [\<lparr>u_id = apiUsage_seq db, u_tenantId = tid, u_endpoint = endpoint,
                        u_method = method, u_requestCount = 1, u_month = month\<rparr>],
                    apiUsage_seq := apiUsage_seq db + 1\<rparr>))
      else Inl NoMatchingConstraint)"

text \<open>
  \<^verbatim>\<open>trackApiUsage\<close>: the statement runs against \<^verbatim>\<open>api_usage\<close> as the schema
  declares it; the \<^verbatim>\<open>catch\<close> logs a failure and the request goes on.
\<close>

definition trackApiUsage :: "Clock \<Rightarrow> Db \<Rightarrow> 'b Request \<Rightarrow> int \<Rightarrow> Db" where
  "trackApiUsage clock db req tid =
     (let endpoint = orDefault (rq_route req) (rq_path req);
          method = rq_method req;
          month = isoMonth clock
      in case insertUsageOnConflictDoUpdate apiUsage_unique db tid endpoint method month of
           Inl err \<Rightarrow> db
         | Inr db' \<Rightarrow> db')"

subsection \<open>Authentication middleware\<close>

definition missingApiKey :: Json where
  "missingApiKey = ErrorMessage ''API key required''
     ''Provide API key in X-API-Key header or api_key query parameter''"

definition invalidApiKey :: Json where
  "invalidApiKey = ErrorMessage ''Invalid API key'' ''API key not found or tenant is inactive''"

definition snapshot :: "Tenant \<Rightarrow> TenantSnapshot" where
  "snapshot t = \<lparr>s_id = t_id t, s_name = t_name t, s_slug = t_slug t,
                  s_subscriptionTier = t_subscriptionTier t, s_maxHubs = t_maxHubs t,
                  s_maxCameras = t_maxCameras t, s_status = t_status t\<rparr>"

definition authenticateApiKey :: "Clock \<Rightarrow> Db \<Rightarrow> 'b Request \<Rightarrow> Res \<Rightarrow> Db \<times> 'b Flow" where
  "authenticateApiKey clock db req res =
     (case js_or (rq_headers req ''x-api-key'') (rq_query req ''api_key'') of
        None \<Rightarrow> (db, Sent (send res 401 missingApiKey))
      | Some apiKey \<Rightarrow>
          if apiKey = [] then (db, Sent (send res 401 missingApiKey))
          else
            (case firstRow (selectActiveTenantByApiKey db apiKey) of
               None \<Rightarrow> (db, Sent (send res 401 invalidApiKey))
             | Some t \<Rightarrow>
                 (let req' = req\<lparr>rq_tenant :=
                        Some \<lparr>tenantId = t_id t, tenant = snapshot t, user = None\<rparr>\<rparr>
                  in (trackApiUsage clock db req' (t_id t), Next req' res))))"

definition missingHubCredentials :: Json where
  "missingHubCredentials = ErrorMessage ''Hub authentication required''
     ''Provide X-License-Key and X-Hub-Serial headers''"

definition invalidHubLicense :: Json where
  "invalidHubLicense = ErrorMessage ''Invalid hub license''
     ''License key/serial combination not found or inactive''"

definition licenseExpired :: Json where
  "licenseExpired = ErrorMessage ''License expired'' ''Hub license has expired, please renew''"

text \<open>
  \<^verbatim>\<open>license.expiresAt && new Date() > license.expiresAt\<close>: a \<^verbatim>\<open>null\<close> expiry never
  expires; a date expires once the clock is strictly past it.
\<close>

definition expired :: "Clock \<Rightarrow> HubLicense \<Rightarrow> bool" where
  "expired clock l = (case hl_expiresAt l of None \<Rightarrow> False | Some e \<Rightarrow> now clock > e)"

definition authenticateHubLicense :: "Clock \<Rightarrow> Db \<Rightarrow> 'b Request \<Rightarrow> Res \<Rightarrow> Db \<times> 'b Flow" where
  "authenticateHubLicense clock db req res =
     (case rq_headers req ''x-license-key'' of
        None \<Rightarrow> (db, Sent (send res 401 missingHubCredentials))
      | Some licenseKey \<Rightarrow>
          (case rq_headers req ''x-hub-serial'' of
             None \<Rightarrow> (db, Sent (send res 401 missingHubCredentials))
           | Some hubSerial \<Rightarrow>
               if licenseKey = [] \<or> hubSerial = [] then
                 (db, Sent (send res 401 missingHubCredentials))
               else
                 (case firstRow (selectActiveLicense db licenseKey hubSerial) of
                    None \<Rightarrow> (db, Sent (send res 401 invalidHubLicense))
                  | Some (l, t) \<Rightarrow>
                      if expired clock l then (db, Sent (send res 401 licenseExpired))
                      else
                        (let req' = req\<lparr>rq_tenant :=
                               Some \<lparr>tenantId = hl_tenantId l, tenant = snapshot t,
                                     user = None\<rparr>\<rparr>
                         in (trackApiUsage clock db req' (hl_tenantId l), Next req' res)))))"

subsection \<open>Authorization guards and the rate limiter\<close>

definition roleHierarchy :: "string list" where
  "roleHierarchy = [''viewer'', ''user'', ''manager'', ''admin'']"

definition userRequired :: Json where
  "userRequired = ErrorMessage ''User authentication required''
     ''This endpoint requires user-level authentication''"

text \<open>\<^verbatim>\<open>req.tenant?.user\<close>.\<close>

definition attachedUser :: "'b Request \<Rightarrow> TenantUser option" where
  "attachedUser req = (case rq_tenant req of None \<Rightarrow> None | Some ctx \<Rightarrow> user ctx)"

definition insufficientRole :: "string \<Rightarrow> Json" where
  "insufficientRole minRole = ErrorMessage ''Insufficient permissions''
     (''This action requires '' @ minRole @ '' role or higher'')"

definition requireRole :: "string \<Rightarrow> 'b Request \<Rightarrow> Res \<Rightarrow> 'b Flow" where
  "requireRole minRole req res =
     (case attachedUser req of
        None \<Rightarrow> Sent (send res 403 userRequired)
      | Some u \<Rightarrow>
          (let userRoleIndex = indexOf roleHierarchy (tu_role u);
               requiredRoleIndex = indexOf roleHierarchy minRole
           in if userRoleIndex < requiredRoleIndex then
                Sent (send res 403 (insufficientRole minRole))
              else Next req res))"

text \<open>
  The keys every object literal inherits from \<^verbatim>\<open>Object.prototype\<close>. A lookup
  \<^verbatim>\<open>obj[key]\<close> finds the object's own entry first, then these, and is
  \<^verbatim>\<open>undefined\<close> for any other key.
\<close>

definition objectPrototypeKeys :: "string list" where
  "objectPrototypeKeys =
     [''constructor'', ''__defineGetter__'', ''__defineSetter__'', ''hasOwnProperty'',
      ''__lookupGetter__'', ''__lookupSetter__'', ''isPrototypeOf'',
      ''propertyIsEnumerable'', ''toString'', ''valueOf'', ''__proto__'',
      ''toLocaleString'']"

definition getProperty :: "(string \<times> int) list \<Rightarrow> string \<Rightarrow> JsValue" where
  "getProperty obj key =
     (case map_of obj key of
        Some n \<Rightarrow> JsNumber n
      | None \<Rightarrow> if key \<in> set objectPrototypeKeys then JsInherited key else JsUndefined)"

definition rateLimits :: "(string \<times> int) list" where
  "rateLimits = [(''basic'', 100), (''pro'', 500), (''enterprise'', 2000)]"

text \<open>\<^verbatim>\<open>rateLimits[tier] || 100\<close>.\<close>

definition tierLimit :: "string \<Rightarrow> JsValue" where
  "tierLimit tier =
     (let v = getProperty rateLimits tier in if truthy v then v else JsNumber 100)"

definition rateLimitByTier :: "'b Request \<Rightarrow> Res \<Rightarrow> 'b Flow" where
  "rateLimitByTier req res =
     (case rq_tenant req of
        None \<Rightarrow> Next req res
      | Some ctx \<Rightarrow>
          (case setHeader ''X-RateLimit-Limit'' (tierLimit (s_subscriptionTier (tenant ctx)))
                  res of
             Inl e \<Rightarrow> Threw e
           | Inr res1 \<Rightarrow>
               (case setHeader ''X-RateLimit-Tier''
                       (JsString (s_subscriptionTier (tenant ctx))) res1 of
                  Inl e \<Rightarrow> Threw e
                | Inr res2 \<Rightarrow> Next req res2)))"

subsection \<open>The platform: schema validation and the database server\<close>

text \<open>
  The request body of the issuance route at the JSON types of the fields of
  \<^verbatim>\<open>insertHubLicenseSchema\<close>, the insert schema of \<^verbatim>\<open>hub_licenses\<close> without
  \<^verbatim>\<open>id\<close>, \<^verbatim>\<open>createdAt\<close>, \<^verbatim>\<open>updatedAt\<close> and \<^verbatim>\<open>licenseKey\<close>. \<open>None\<close> is a field
  the body leaves out or gives as \<^verbatim>\<open>null\<close>. The two timestamp fields can arrive only
  as JSON text or numbers, kept here as text.
\<close>

record LicenseBody =
  lb_tenantId :: "int option"
  lb_hubSerial :: "string option"
  lb_hubName :: "string option"
  lb_deploymentLocation :: "string option"
  lb_status :: "string option"
  lb_maxCameras :: "int option"
  lb_activatedAt :: "string option"
  lb_expiresAt :: "string option"

text \<open>What \<^verbatim>\<open>parse\<close> returns: the fields at the schema's types, dates as timestamps.\<close>

record ValidatedLicense =
  v_tenantId :: int
  v_hubSerial :: string
  v_hubName :: "string option"
  v_deploymentLocation :: "string option"
  v_status :: "string option"
  v_maxCameras :: "int option"
  v_activatedAt :: "int option"
  v_expiresAt :: "int option"

datatype ZodError = ZodError

text \<open>The values of an insert into \<^verbatim>\<open>hub_licenses\<close> and into \<^verbatim>\<open>hubs\<close>.\<close>

record InsertHubLicense =
  il_tenantId :: int
  il_hubSerial :: string
  il_licenseKey :: string
  il_hubName :: "string option"
  il_deploymentLocation :: "string option"
  il_status :: string
  il_maxCameras :: "int option"
  il_activatedAt :: "int option"
  il_expiresAt :: "int option"

record InsertTenantHub =
  ih_tenantId :: int
  ih_name :: string
  ih_serialNumber :: string
  ih_status :: string
  ih_lastHeartbeat :: "int option"
  ih_ipAddress :: "string option"
  ih_version :: "string option"
  ih_configuration :: string

text \<open>
  The decisions of the validation library and of the database server.
  \<^item> \<open>schemaParse\<close>: \<^verbatim>\<open>insertHubLicenseSchema.parse(body)\<close>, the validated fields or a
    ZodError.
  \<^item> \<open>insertLicenseRow\<close>, \<open>insertHubRow\<close>: an insert with \<^verbatim>\<open>returning()\<close>, given the
    store and the values. \<open>None\<close>: the server refuses the row. \<open>Some r\<close>: it
    stores and returns \<open>r\<close>, the row with its id and defaults.
  \<^item> \<open>updateHubRow\<close>: the same for a row as an update would leave it.
\<close>

record Platform =
  schemaParse :: "LicenseBody \<Rightarrow> ZodError + ValidatedLicense"
  insertLicenseRow :: "Db \<Rightarrow> InsertHubLicense \<Rightarrow> HubLicense option"
  insertHubRow :: "Db \<Rightarrow> InsertTenantHub \<Rightarrow> TenantHub option"
  updateHubRow :: "Db \<Rightarrow> TenantHub \<Rightarrow> TenantHub option"

subsection \<open>The platform as the schema file declares it\<close>

text \<open>
  The insert schema: \<^verbatim>\<open>tenantId\<close> and \<^verbatim>\<open>hubSerial\<close>, which are \<^verbatim>\<open>notNull()\<close> without a
  default, are required; an integer is within 32 bits; a \<^verbatim>\<open>varchar\<close> field is no longer
  than its column; a timestamp field must be a Date, which no JSON value is.
\<close>

definition maxLength :: "nat \<Rightarrow> string option \<Rightarrow> bool" where
  "maxLength n x = (case x of None \<Rightarrow> True | Some s \<Rightarrow> length s \<le> n)"

definition insertHubLicenseSchema_parse :: "LicenseBody \<Rightarrow> ZodError + ValidatedLicense" where
  "insertHubLicenseSchema_parse b =
     (case lb_tenantId b of
        None \<Rightarrow> Inl ZodError
      | Some tid \<Rightarrow>
          (case lb_hubSerial b of
             None \<Rightarrow> Inl ZodError
           | Some hs \<Rightarrow>
               if int4 tid \<and> length hs \<le> 100 \<and> maxLength 255 (lb_hubName b) \<and>
                  maxLength 255 (lb_deploymentLocation b) \<and> maxLength 20 (lb_status b) \<and>
                  (case lb_maxCameras b of None \<Rightarrow> True | Some n \<Rightarrow> int4 n) \<and>
                  lb_activatedAt b = None \<and> lb_expiresAt b = None
               then Inr \<lparr>v_tenantId = tid, v_hubSerial = hs, v_hubName = lb_hubName b,
                         v_deploymentLocation = lb_deploymentLocation b,
                         v_status = lb_status b, v_maxCameras = lb_maxCameras b,
                         v_activatedAt = None, v_expiresAt = None\<rparr>
               else Inl ZodError))"

text \<open>
  A \<^verbatim>\<open>varchar(n)\<close> column: text cannot hold the character with code 0; a value longer
  than \<open>n\<close> is refused, unless what exceeds \<open>n\<close> is all spaces, which are dropped.
\<close>

definition varchar :: "nat \<Rightarrow> string \<Rightarrow> string option" where
  "varchar n s =
     (if list_ex (\<lambda>c. (of_char c :: nat) = 0) s then None
      else if length s \<le> n then Some s
      else if list_all (\<lambda>c. c = CHR '' '') (drop n s) then Some (take n s)
      else None)"

definition varcharNull :: "nat \<Rightarrow> string option \<Rightarrow> string option option" where
  "varcharNull n x = (case x of None \<Rightarrow> Some None | Some s \<Rightarrow> map_option Some (varchar n s))"

text \<open>An id that no row of the table carries.\<close>

definition freshId :: "int list \<Rightarrow> int" where
  "freshId ids = foldr max ids 0 + 1"

text \<open>
  \<^verbatim>\<open>hub_licenses\<close>: \<^verbatim>\<open>hub_serial varchar(100)\<close> and \<^verbatim>\<open>license_key varchar(128)\<close>, each
  unique; \<^verbatim>\<open>hub_name\<close> and \<^verbatim>\<open>deployment_location varchar(255)\<close>; \<^verbatim>\<open>status
  varchar(20)\<close>; \<^verbatim>\<open>max_cameras integer\<close> with default 16; \<^verbatim>\<open>tenant_id\<close> references
  \<^verbatim>\<open>tenants\<close>.
\<close>

definition declaredInsertLicense :: "Db \<Rightarrow> InsertHubLicense \<Rightarrow> HubLicense option" where
  "declaredInsertLicense db v =
     (case (varchar 100 (il_hubSerial v), varchar 128 (il_licenseKey v),
            varcharNull 255 (il_hubName v), varcharNull 255 (il_deploymentLocation v),
            varchar 20 (il_status v)) of
        (Some serial, Some key, Some name, Some location, Some status) \<Rightarrow>
          if int4 (il_tenantId v) \<and>
             (case il_maxCameras v of None \<Rightarrow> True | Some n \<Rightarrow> int4 n) \<and>
             list_ex (\<lambda>t. t_id t = il_tenantId v) (tenants db) \<and>
             list_all (\<lambda>l. hl_hubSerial l \<noteq> serial \<and> hl_licenseKey l \<noteq> key) (hubLicenses db)
          then Some \<lparr>hl_id = freshId (map hl_id (hubLicenses db)),
                     hl_tenantId = il_tenantId v, hl_hubSerial = serial,
                     hl_licenseKey = key, hl_hubName = name,
                     hl_deploymentLocation = location, hl_status = status,
                     hl_maxCameras = (case il_maxCameras v of None \<Rightarrow> 16 | Some n \<Rightarrow> n),
                     hl_activatedAt = il_activatedAt v, hl_expiresAt = il_expiresAt v\<rparr>
          else None
      | other \<Rightarrow> None)"

text \<open>
  \<^verbatim>\<open>hubs\<close>: \<^verbatim>\<open>name varchar(255)\<close>, \<^verbatim>\<open>serial_number varchar(100)\<close>, \<^verbatim>\<open>status
  varchar(50)\<close>, \<^verbatim>\<open>ip_address varchar(45)\<close>, \<^verbatim>\<open>version varchar(50)\<close>; tenant and serial
  number unique together; \<^verbatim>\<open>tenant_id\<close> references \<^verbatim>\<open>tenants\<close>.
\<close>

definition declaredHubColumns :: "TenantHub \<Rightarrow> TenantHub option" where
  "declaredHubColumns h =
     (case (varchar 255 (h_name h), varchar 100 (h_serialNumber h), varchar 50 (h_status h),
            varcharNull 45 (h_ipAddress h), varcharNull 50 (h_version h)) of
        (Some name, Some serial, Some status, Some ip, Some version) \<Rightarrow>
          Some (h\<lparr>h_name := name, h_serialNumber := serial, h_status := status,
                  h_ipAddress := ip, h_version := version\<rparr>)
      | other \<Rightarrow> None)"

definition declaredInsertHub :: "Db \<Rightarrow> InsertTenantHub \<Rightarrow> TenantHub option" where
  "declaredInsertHub db v =
     (case declaredHubColumns
             \<lparr>h_id = freshId (map h_id (tenantsHubs db)), h_tenantId = ih_tenantId v,
              h_name = ih_name v, h_serialNumber = ih_serialNumber v,
              h_status = ih_status v, h_lastHeartbeat = ih_lastHeartbeat v,
              h_ipAddress = ih_ipAddress v, h_version = ih_version v,
              h_configuration = ih_configuration v\<rparr> of
        None \<Rightarrow> None
      | Some h \<Rightarrow>
          if int4 (h_tenantId h) \<and> list_ex (\<lambda>t. t_id t = h_tenantId h) (tenants db) \<and>
             list_all (\<lambda>g. \<not> (h_tenantId g = h_tenantId h \<and> h_serialNumber g = h_serialNumber h))
               (tenantsHubs db)
          then Some h else None)"

definition declaredUpdateHub :: "Db \<Rightarrow> TenantHub \<Rightarrow> TenantHub option" where
  "declaredUpdateHub db h = declaredHubColumns h"

definition declared :: Platform where
  "declared = \<lparr>schemaParse = insertHubLicenseSchema_parse,
               insertLicenseRow = declaredInsertLicense,
               insertHubRow = declaredInsertHub,
               updateHubRow = declaredUpdateHub\<rparr>"

subsection \<open>Hub license issuance (POST /api/tenant/hub-licenses)\<close>

text \<open>
  What \<^verbatim>\<open>generateLicenseKey()\<close> and \<^verbatim>\<open>generateHubSerial(slug, count + 1)\<close>
  return: they draw on \<^verbatim>\<open>crypto.randomBytes\<close> and \<^verbatim>\<open>Date.now()\<close>.
\<close>

record Generated =
  g_licenseKey :: string
  g_hubSerial :: string






subsection \<open>Hub heartbeat (POST /api/hub/heartbeat)\<close>

text \<open>
  The fields the handler takes from the body. The request carries \<open>None\<close> for a body
  that is \<^verbatim>\<open>undefined\<close>, on which the destructuring throws a TypeError.
\<close>

record HeartbeatBody =
  hb_status :: "string option"
  hb_ipAddress :: "string option"
  hb_version :: "string option"
  hb_configuration :: "string option"

text \<open>The number of hub rows a tenant has (the handler itself never counts them).\<close>

definition countHubs :: "Db \<Rightarrow> int \<Rightarrow> int" where
  "countHubs db tid = int (length (filter (\<lambda>h. h_tenantId h = tid) (tenantsHubs db)))"

definition selectHub :: "Db \<Rightarrow> int \<Rightarrow> string \<Rightarrow> TenantHub list" where
  "selectHub db tid hubSerial =
     filter (\<lambda>h. h_tenantId h = tid \<and> h_serialNumber h = hubSerial) (tenantsHubs db)"

text \<open>
  \<^verbatim>\<open>db.update(tenantsHubs).set({...})\<close>: a key whose value is \<^verbatim>\<open>undefined\<close> is
  left out of the update.
\<close>

definition heartbeatUpdate :: "Clock \<Rightarrow> HeartbeatBody \<Rightarrow> TenantHub \<Rightarrow> TenantHub" where
  "heartbeatUpdate clock b h =
     h\<lparr>h_status := orDefault (hb_status b) ''online'',
       h_lastHeartbeat := Some (now clock),
       h_ipAddress := (case hb_ipAddress b of None \<Rightarrow> h_ipAddress h | Some a \<Rightarrow> Some a),
       h_version := (case hb_version b of None \<Rightarrow> h_version h | Some v \<Rightarrow> Some v),
       h_configuration :=
         (case hb_configuration b of None \<Rightarrow> h_configuration h | Some c \<Rightarrow> c)\<rparr>"

text \<open>The values of the insert that registers a hub.\<close>

definition newHubValues :: "Clock \<Rightarrow> int \<Rightarrow> string \<Rightarrow> HeartbeatBody \<Rightarrow> InsertTenantHub" where
  "newHubValues clock tid hubSerial b =
     \<lparr>ih_tenantId = tid, ih_name = ''Hub-'' @ lastSegment hubSerial,
      ih_serialNumber = hubSerial, ih_status = orDefault (hb_status b) ''online'',
      ih_lastHeartbeat = Some (now clock), ih_ipAddress = hb_ipAddress b,
      ih_version = hb_version b,
      ih_configuration = orDefault (hb_configuration b) ''{}''\<rparr>"

definition heartbeatFailed :: Json where
  "heartbeatFailed = ErrorOnly ''Failed to process heartbeat''"

text \<open>
  The handler. Everything runs inside its \<^verbatim>\<open>try\<close>, and the \<^verbatim>\<open>catch\<close> answers 500:
  to a missing body or context, to a missing serial header, and to a row the store
  refuses. The update addresses the rows that carry the id of the hub found.
\<close>

definition hubHeartbeat ::
    "Platform \<Rightarrow> Clock \<Rightarrow> Db \<Rightarrow> HeartbeatBody option Request \<Rightarrow> Res \<Rightarrow>
       Db \<times> HeartbeatBody option Flow" where
  "hubHeartbeat pf clock db req res =
     (case rq_body req of
        None \<Rightarrow> (db, Sent (send res 500 heartbeatFailed))
      | Some body \<Rightarrow>
     (case rq_tenant req of
        None \<Rightarrow> (db, Sent (send res 500 heartbeatFailed))
      | Some ctx \<Rightarrow>
     (case rq_headers req ''x-hub-serial'' of
        None \<Rightarrow> (db, Sent (send res 500 heartbeatFailed))
      | Some hubSerial \<Rightarrow>
          (case firstRow (selectHub db (tenantId ctx) hubSerial) of
             Some existingHub \<Rightarrow>
               (let updated =
                      map (\<lambda>h. if h_id h = h_id existingHub
                               then updateHubRow pf db (heartbeatUpdate clock body h)
                               else Some h)
                        (tenantsHubs db)
                in if list_ex (\<lambda>x. x = None) updated then
                     (db, Sent (send res 500 heartbeatFailed))
                   else
                     (db\<lparr>tenantsHubs := concat (map (\<lambda>x. case x of None \<Rightarrow> [] | Some h \<Rightarrow> [h])
                                                  updated)\<rparr>,
                      Sent (send res 200
                        (HubJson
                           (firstRow (concat (map (\<lambda>h. if h_id h = h_id existingHub
                                      then (case updateHubRow pf db (heartbeatUpdate clock body h)
                                            of None \<Rightarrow> [] | Some g \<Rightarrow> [g])
                                      else []) (tenantsHubs db))))
                           ''Heartbeat received''))))
           | None \<Rightarrow>
               (case insertHubRow pf db (newHubValues clock (tenantId ctx) hubSerial body) of
                  None \<Rightarrow> (db, Sent (send res 500 heartbeatFailed))
                | Some newHub \<Rightarrow>
                    (db\<lparr>tenantsHubs := tenantsHubs db @ [newHub]\<rparr>,
                     Sent (send res 201 (HubJson (Some newHub) ''Hub registered''))))))))"

text \<open>\<^verbatim>\<open>app.use("/api/hub", authenticateHubLicense)\<close>, then the heartbeat handler.\<close>

definition postHubHeartbeat ::
    "Platform \<Rightarrow> Clock \<Rightarrow> Db \<Rightarrow> HeartbeatBody option Request \<Rightarrow> Res \<Rightarrow>
       Db \<times> HeartbeatBody option Flow" where
  "postHubHeartbeat pf clock db req res =
     (case authenticateHubLicense clock db req res of
        (db1, Sent r) \<Rightarrow> (db1, Sent r)
      | (db1, Threw e) \<Rightarrow> (db1, Threw e)
      | (db1, Next req1 res1) \<Rightarrow> hubHeartbeat pf clock db1 req1 res1)"

subsection \<open>Example data\<close>

text \<open>
  A small store used to run the operations on concrete inputs: four tenants (one active
  on the pro tier with room for two hubs, one suspended, one cancelled, and one active
  whose tier string is \<^verbatim>\<open>constructor\<close>), and four licenses (one valid, one active but
  expired at time 500, one revoked, one of the suspended tenant).
\<close>

definition acme :: Tenant where
  "acme = \<lparr>t_id = 1, t_name = ''Acme Security'', t_slug = ''acme-security'',
            t_apiKey = ''ak_acme'', t_subscriptionTier = ''pro'', t_maxHubs = 2,
            t_maxCameras = 50, t_status = ''active''\<rparr>"

definition dormant :: Tenant where
  "dormant = \<lparr>t_id = 2, t_name = ''Dormant'', t_slug = ''dormant'',
               t_apiKey = ''ak_dormant'', t_subscriptionTier = ''basic'', t_maxHubs = 5,
               t_maxCameras = 50, t_status = ''suspended''\<rparr>"

definition closed :: Tenant where
  "closed = \<lparr>t_id = 3, t_name = ''Closed'', t_slug = ''closed'',
              t_apiKey = ''ak_closed'', t_subscriptionTier = ''basic'', t_maxHubs = 5,
              t_maxCameras = 50, t_status = ''cancelled''\<rparr>"

definition oddTier :: Tenant where
  "oddTier = \<lparr>t_id = 4, t_name = ''Odd'', t_slug = ''odd'',
               t_apiKey = ''ak_odd'', t_subscriptionTier = ''constructor'', t_maxHubs = 5,
               t_maxCameras = 50, t_status = ''active''\<rparr>"

definition licValid :: HubLicense where
  "licValid = \<lparr>hl_id = 1, hl_tenantId = 1, hl_hubSerial = ''AO-ACME-001-k1'',
                hl_licenseKey = ''lk_1'', hl_hubName = None, hl_deploymentLocation = None,
                hl_status = ''active'', hl_maxCameras = 16, hl_activatedAt = None,
                hl_expiresAt = None\<rparr>"

definition licExpired :: HubLicense where
  "licExpired = \<lparr>hl_id = 2, hl_tenantId = 1, hl_hubSerial = ''AO-ACME-002-k2'',
                  hl_licenseKey = ''lk_2'', hl_hubName = None, hl_deploymentLocation = None,
                  hl_status = ''active'', hl_maxCameras = 16, hl_activatedAt = None,
                  hl_expiresAt = Some 500\<rparr>"

definition licRevoked :: HubLicense where
  "licRevoked = \<lparr>hl_id = 3, hl_tenantId = 4, hl_hubSerial = ''AO-ODD-001-k3'',
                  hl_licenseKey = ''lk_3'', hl_hubName = None, hl_deploymentLocation = None,
                  hl_status = ''revoked'', hl_maxCameras = 16, hl_activatedAt = None,
                  hl_expiresAt = None\<rparr>"

definition licDormant :: HubLicense where
  "licDormant = \<lparr>hl_id = 4, hl_tenantId = 2, hl_hubSerial = ''AO-DORMANT-001-k4'',
                  hl_licenseKey = ''lk_4'', hl_hubName = None, hl_deploymentLocation = None,
                  hl_status = ''active'', hl_maxCameras = 16, hl_activatedAt = None,
                  hl_expiresAt = None\<rparr>"

definition db0 :: Db where
  "db0 = \<lparr>tenants = [acme, dormant, closed, oddTier],
           hubLicenses = [licValid, licExpired, licRevoked, licDormant],
           tenantsHubs = [], apiUsage = [], apiUsage_seq = 1\<rparr>"

text \<open>A store that knows only the first tenant and its valid license.\<close>

definition dbBare :: Db where
  "dbBare = db0\<lparr>tenants := [acme], hubLicenses := [licValid]\<rparr>"

definition clock0 :: Clock where
  "clock0 = \<lparr>now = 1000, isoMonth = ''2026-11''\<rparr>"

definition res0 :: Res where
  "res0 = \<lparr>res_headers = []\<rparr>"

definition apiKeyRequest :: "string \<Rightarrow> string \<Rightarrow> string \<Rightarrow> 'b \<Rightarrow> 'b Request" where
  "apiKeyRequest key method path b =
     \<lparr>rq_headers = [''x-api-key'' \<mapsto> key], rq_query = Map.empty, rq_route = None,
      rq_path = path, rq_method = method, rq_body = b, rq_tenant = None\<rparr>"

definition hubRequest :: "string \<Rightarrow> string \<Rightarrow> string \<Rightarrow> 'b \<Rightarrow> 'b Request" where
  "hubRequest licenseKey hubSerial path b =
     \<lparr>rq_headers = [''x-license-key'' \<mapsto> licenseKey, ''x-hub-serial'' \<mapsto> hubSerial],
      rq_query = Map.empty, rq_route = None, rq_path = path, rq_method = ''POST'',
      rq_body = b, rq_tenant = None\<rparr>"

definition gen0 :: Generated where
  "gen0 = \<lparr>g_licenseKey = ''lk_new'', g_hubSerial = ''AO-ACME-SECURITY-002-k9''\<rparr>"

definition emptyLicenseBody :: LicenseBody where
  "emptyLicenseBody =
     \<lparr>lb_tenantId = None, lb_hubSerial = None, lb_hubName = None,
      lb_deploymentLocation = None, lb_status = None, lb_maxCameras = None,
      lb_activatedAt = None, lb_expiresAt = None\<rparr>"

definition lobbyLicenseBody :: LicenseBody where
  "lobbyLicenseBody =
     \<lparr>lb_tenantId = Some 1, lb_hubSerial = Some ''any'', lb_hubName = Some ''Lobby'',
      lb_deploymentLocation = None, lb_status = None, lb_maxCameras = None,
      lb_activatedAt = None, lb_expiresAt = None\<rparr>"




text \<open>
  The example store with a fifth tenant, whose tier string ends in a line feed (the
  signup route takes any string of up to 50 characters for the tier).
\<close>

definition brokenTier :: Tenant where
  "brokenTier = \<lparr>t_id = 5, t_name = ''Broken'', t_slug = ''broken'',
                  t_apiKey = ''ak_broken'', t_subscriptionTier = ''pro'' @ [CHR 0x0A],
                  t_maxHubs = 5, t_maxCameras = 50, t_status = ''active''\<rparr>"


definition beat :: HeartbeatBody where
  "beat = \<lparr>hb_status = None, hb_ipAddress = Some ''10.0.0.7'', hb_version = None,
           hb_configuration = None\<rparr>"

text \<open>A heartbeat whose address has 46 characters, one more than its column takes.\<close>

definition longBeat :: HeartbeatBody where
  "longBeat =
     beat\<lparr>hb_ipAddress := Some ''2001:0db8:85a3:0000:0000:8a2e:0370:7334:ffff:1''\<rparr>"

text \<open>The example store after two other hubs of the first tenant have reported in.\<close>

definition hubA :: TenantHub where
  "hubA = \<lparr>h_id = 1, h_tenantId = 1, h_name = ''Hub-a'', h_serialNumber = ''AO-ACME-008-a'',
           h_status = ''online'', h_lastHeartbeat = Some 10, h_ipAddress = None,
           h_version = None, h_configuration = ''{}''\<rparr>"

definition hubB :: TenantHub where
  "hubB = \<lparr>h_id = 2, h_tenantId = 1, h_name = ''Hub-b'', h_serialNumber = ''AO-ACME-009-b'',
           h_status = ''online'', h_lastHeartbeat = Some 20, h_ipAddress = None,
           h_version = None, h_configuration = ''{}''\<rparr>"

definition db2 :: Db where
  "db2 = db0\<lparr>tenantsHubs := [hubA, hubB]\<rparr>"

text \<open>The hub that a heartbeat of the valid license registers there.\<close>

definition hubNew :: TenantHub where
  "hubNew = \<lparr>h_id = 3, h_tenantId = 1, h_name = ''Hub-k1'',
              h_serialNumber = ''AO-ACME-001-k1'', h_status = ''online'',
              h_lastHeartbeat = Some 1000, h_ipAddress = Some ''10.0.0.7'',
              h_version = None, h_configuration = ''{}''\<rparr>"

definition withUser :: "Tenant \<Rightarrow> string \<Rightarrow> 'b Request \<Rightarrow> 'b Request" where
  "withUser t role req =
     req\<lparr>rq_tenant := Some \<lparr>tenantId = t_id t, tenant = snapshot t,
            user = Some \<lparr>tu_id = 7, tu_email = ''pat@example.org'', tu_role = role,
                         tu_permissions = []\<rparr>\<rparr>\<rparr>"

definition withoutUser :: "Tenant \<Rightarrow> 'b Request \<Rightarrow> 'b Request" where
  "withoutUser t req =
     req\<lparr>rq_tenant := Some \<lparr>tenantId = t_id t, tenant = snapshot t, user = None\<rparr>\<rparr>"

section \<open>Properties\<close>

subsection \<open>Auxiliary facts\<close>

lemmas fixtures = db0_def acme_def dormant_def closed_def oddTier_def licValid_def
  licExpired_def licRevoked_def licDormant_def clock0_def apiKeyRequest_def hubRequest_def
  res0_def gen0_def emptyLicenseBody_def lobbyLicenseBody_def beat_def hubA_def hubB_def
  db2_def dbBare_def withUser_def withoutUser_def snapshot_def


lemma firstRow_only: "x \<in> set xs \<Longrightarrow> \<forall>y\<in>set xs. y = x \<Longrightarrow> firstRow xs = Some x"
  by (cases xs) (auto simp: firstRow_def)

lemma indexOf_ge: "- 1 \<le> indexOf xs x"
  by (induction xs) (auto simp: Let_def)

lemma indexOf_notin: "x \<notin> set xs \<Longrightarrow> indexOf xs x = - 1"
  by (induction xs) (auto simp: Let_def)

text \<open>The usage upsert touches no table but its own.\<close>

lemma trackApiUsage_tables:
  "tenants (trackApiUsage clock db req tid) = tenants db \<and>
   hubLicenses (trackApiUsage clock db req tid) = hubLicenses db \<and>
   tenantsHubs (trackApiUsage clock db req tid) = tenantsHubs db"
  by (simp add: trackApiUsage_def insertUsageOnConflictDoUpdate_def Let_def
      split: option.splits)

text \<open>
  The string the upsert sends for the count is no integer, so the statement is refused
  even on a table that has the arbiter; on \<^verbatim>\<open>api_usage\<close> as declared there is none.
\<close>

lemma requestCountPlusOne_not_integer: "int4in requestCountPlusOne = None"
  by (simp add: int4in_def requestCountPlusOne_def isDigit_def Let_def)

lemma usage_upsert_refused:
  "insertUsageOnConflictDoUpdate uniques db tid e m mo = Inl NoMatchingConstraint \<or>
   insertUsageOnConflictDoUpdate uniques db tid e m mo = Inl InvalidTextRepresentation"
  by (simp add: insertUsageOnConflictDoUpdate_def requestCountPlusOne_not_integer)

lemma arbiter_absent:
  "\<not> arbiterExists apiUsage_unique [''tenant_id'', ''endpoint'', ''method'', ''month'']"
  by (simp add: arbiterExists_def apiUsage_unique_def)

lemma trackApiUsage_swallowed: "trackApiUsage clock db req tid = db"
  by (simp add: trackApiUsage_def insertUsageOnConflictDoUpdate_def arbiter_absent)




lemma authenticateHubLicense_Next:
  "authenticateHubLicense clock db req res = (db1, Next req1 res1) \<Longrightarrow>
     attachedUser req1 = None \<and> rq_tenant req1 \<noteq> None \<and> res1 = res \<and>
     rq_headers req1 = rq_headers req \<and> rq_body req1 = rq_body req \<and>
     tenants db1 = tenants db \<and> hubLicenses db1 = hubLicenses db \<and>
     tenantsHubs db1 = tenantsHubs db"
  by (auto simp: authenticateHubLicense_def Let_def attachedUser_def trackApiUsage_tables
      split: option.splits if_splits)

lemma authenticateHubLicense_Sent:
  "authenticateHubLicense clock db req res = (db1, Sent r) \<Longrightarrow> db1 = db \<and> statusCode r = 401"
  by (auto simp: authenticateHubLicense_def Let_def send_def split: option.splits if_splits)

text \<open>
  The limit is a number or an inherited member, never a value \<^verbatim>\<open>setHeader\<close> refuses;
  so the limiter passes a request on exactly when it has no tenant context or the tier
  string is a valid header value, throws otherwise, and never sends a response.
\<close>

lemma tierLimit_header_ok: "headerValueError (tierLimit tier) = None"
  by (simp add: tierLimit_def getProperty_def Let_def split: option.splits)

lemma rateLimitByTier_context:
  "rq_tenant req = Some ctx \<Longrightarrow>
     rateLimitByTier req res =
       (if list_all validHeaderChar (s_subscriptionTier (tenant ctx))
        then Next req
               (res\<lparr>res_headers := res_headers res @
                  [(''X-RateLimit-Limit'', tierLimit (s_subscriptionTier (tenant ctx))),
                   (''X-RateLimit-Tier'', JsString (s_subscriptionTier (tenant ctx)))]\<rparr>)
        else Threw InvalidHeaderChar)"
  by (simp add: rateLimitByTier_def setHeader_def tierLimit_header_ok)

lemma rateLimitByTier_not_Sent: "rateLimitByTier req res \<noteq> Sent r"
  by (simp add: rateLimitByTier_def split: option.splits sum.splits)

text \<open>
  For a tier that names no member of \<^verbatim>\<open>Object.prototype\<close> the limit is the table's
  entry, or 100.
\<close>

lemma tierLimit_table:
  "tier \<notin> set objectPrototypeKeys \<Longrightarrow>
     tierLimit tier = JsNumber (if tier = ''basic'' then 100 else if tier = ''pro'' then 500
                                else if tier = ''enterprise'' then 2000 else 100)"
  by (simp add: tierLimit_def getProperty_def rateLimits_def)




lemma tier_broken_invalid: "\<not> list_all validHeaderChar (t_subscriptionTier brokenTier)"
  by (simp add: validHeaderChar_def brokenTier_def)

text \<open>The limiter on the tenant whose tier ends in a line feed.\<close>

lemma limiter_throws_on_broken_tier:
  "rateLimitByTier (withoutUser brokenTier (apiKeyRequest ''ak_broken'' m p b)) res0 =
     Threw InvalidHeaderChar"
proof -
  have c: "rq_tenant (withoutUser brokenTier (apiKeyRequest ''ak_broken'' m p b)) =
      Some \<lparr>tenantId = t_id brokenTier, tenant = snapshot brokenTier, user = None\<rparr>"
    by (simp add: withoutUser_def)
  show ?thesis
    unfolding rateLimitByTier_context [OF c]
    using tier_broken_invalid by (simp add: snapshot_def)
qed








lemma auth_valid_hub:
  "authenticateHubLicense clock0 db2 (hubRequest ''lk_1'' ''AO-ACME-001-k1'' p b) res0 =
     (db2, Next (withoutUser acme (hubRequest ''lk_1'' ''AO-ACME-001-k1'' p b)) res0)"
  by (simp add: authenticateHubLicense_def selectActiveLicense_def firstRow_def expired_def
      trackApiUsage_swallowed withoutUser_def hubRequest_def db2_def db0_def acme_def
      dormant_def closed_def oddTier_def licValid_def licExpired_def licRevoked_def
      licDormant_def)

lemma no_hub_yet: "selectHub db2 1 ''AO-ACME-001-k1'' = []"
  by (simp add: selectHub_def db2_def hubA_def hubB_def)

lemma count_hubs_acme: "countHubs db2 1 = 2"
  by (simp add: countHubs_def db2_def hubA_def hubB_def)

lemma insert_hubNew:
  "declaredInsertHub db2 (newHubValues clock0 1 ''AO-ACME-001-k1'' beat) = Some hubNew"
  by (simp add: declaredInsertHub_def declaredHubColumns_def newHubValues_def varchar_def
      varcharNull_def int4_def freshId_def lastSegment_def orDefault_def beat_def clock0_def
      db2_def db0_def acme_def dormant_def closed_def oddTier_def hubA_def hubB_def hubNew_def)

lemma insert_long_refused:
  "declaredInsertHub db2 (newHubValues clock0 1 ''AO-ACME-001-k1'' longBeat) = None"
  by (simp add: declaredInsertHub_def declaredHubColumns_def newHubValues_def varchar_def
      varcharNull_def lastSegment_def orDefault_def longBeat_def beat_def clock0_def)

subsection \<open>API-key authentication of an inactive tenant\<close>

text \<open>
  C1. A request whose API key is held by a tenant with status \<^verbatim>\<open>suspended\<close> or
  \<^verbatim>\<open>cancelled\<close> (the key being unique in the store, as the schema declares): the one
  query that matches key and status together finds no row; the middleware answers 401
  with the invalid-key body and does not call \<^verbatim>\<open>next\<close>, so no tenant context reaches
  a handler; the store is left as it was; and the answer is the one given on a store
  from which every tenant holding that key has been removed.
\<close>

theorem apiKey_of_inactive_tenant_rejected:
  assumes held: "t \<in> set (tenants db)" "t_apiKey t = apiKey"
    and inactive: "t_status t = ''suspended'' \<or> t_status t = ''cancelled''"
    and unique: "\<forall>t'\<in>set (tenants db). t_apiKey t' = apiKey \<longrightarrow> t' = t"
    and supplied: "js_or (rq_headers req ''x-api-key'') (rq_query req ''api_key'') = Some apiKey"
      "apiKey \<noteq> []"
  shows "firstRow (selectActiveTenantByApiKey db apiKey) = None \<and>
         authenticateApiKey clock db req res = (db, Sent (send res 401 invalidApiKey)) \<and>
         snd (authenticateApiKey clock db req res) =
           snd (authenticateApiKey clock
                  (db\<lparr>tenants := filter (\<lambda>t'. t_apiKey t' \<noteq> apiKey) (tenants db)\<rparr>) req res)"
proof -
  have "selectActiveTenantByApiKey db apiKey = []"
    unfolding selectActiveTenantByApiKey_def filter_empty_conv
    using unique inactive by auto
  moreover have "selectActiveTenantByApiKey
      (db\<lparr>tenants := filter (\<lambda>t'. t_apiKey t' \<noteq> apiKey) (tenants db)\<rparr>) apiKey = []"
    unfolding selectActiveTenantByApiKey_def filter_empty_conv by simp
  ultimately show ?thesis
    using supplied by (simp add: authenticateApiKey_def firstRow_def)
qed

text \<open>The suspended and the cancelled tenant of the example store.\<close>

theorem apiKey_of_inactive_tenant_rejected_witness:
  "dormant \<in> set (tenants db0) \<and> t_status dormant = ''suspended'' \<and>
   authenticateApiKey clock0 db0 (apiKeyRequest ''ak_dormant'' ''GET'' ''/info'' ()) res0 =
     (db0, Sent (send res0 401 invalidApiKey)) \<and>
   closed \<in> set (tenants db0) \<and> t_status closed = ''cancelled'' \<and>
   authenticateApiKey clock0 db0 (apiKeyRequest ''ak_closed'' ''GET'' ''/info'' ()) res0 =
     (db0, Sent (send res0 401 invalidApiKey))"
proof -
  have d1: "dormant \<in> set (tenants db0)" and c1: "closed \<in> set (tenants db0)"
    by (simp_all add: db0_def)
  have d2: "t_apiKey dormant = ''ak_dormant''" and c2: "t_apiKey closed = ''ak_closed''"
    by (simp_all add: dormant_def closed_def)
  have d3: "t_status dormant = ''suspended'' \<or> t_status dormant = ''cancelled''"
    and c3: "t_status closed = ''suspended'' \<or> t_status closed = ''cancelled''"
    by (simp_all add: dormant_def closed_def)
  have d4: "\<forall>t'\<in>set (tenants db0). t_apiKey t' = ''ak_dormant'' \<longrightarrow> t' = dormant"
    and c4: "\<forall>t'\<in>set (tenants db0). t_apiKey t' = ''ak_closed'' \<longrightarrow> t' = closed"
    by (simp_all add: fixtures)
  have d5: "js_or (rq_headers (apiKeyRequest ''ak_dormant'' ''GET'' ''/info'' ()) ''x-api-key'')
              (rq_query (apiKeyRequest ''ak_dormant'' ''GET'' ''/info'' ()) ''api_key'')
            = Some ''ak_dormant''"
    and c5: "js_or (rq_headers (apiKeyRequest ''ak_closed'' ''GET'' ''/info'' ()) ''x-api-key'')
              (rq_query (apiKeyRequest ''ak_closed'' ''GET'' ''/info'' ()) ''api_key'')
            = Some ''ak_closed''"
    by (simp_all add: apiKeyRequest_def js_or_def)
  have ne: "''ak_dormant'' \<noteq> []" "''ak_closed'' \<noteq> []" by simp_all
  show ?thesis
    using apiKey_of_inactive_tenant_rejected [OF d1 d2 d3 d4 d5 ne(1), of clock0 res0]
      apiKey_of_inactive_tenant_rejected [OF c1 c2 c3 c4 c5 ne(2), of clock0 res0]
      d1 c1
    by (simp add: dormant_def closed_def)
qed

subsection \<open>Expired hub licenses\<close>

text \<open>
  C2. A hub request whose license key and hub serial match a license with status
  \<^verbatim>\<open>active\<close> of a tenant with status \<^verbatim>\<open>active\<close> (license key and tenant id being
  unique in the store), the license carrying an expiry strictly before the clock: the
  middleware answers 401 with the license-expired body, which is not the
  invalid-license body, does not call \<^verbatim>\<open>next\<close> and leaves the store as it was.
\<close>

theorem expired_license_rejected:
  assumes hdrs: "rq_headers req ''x-license-key'' = Some k"
      "rq_headers req ''x-hub-serial'' = Some s" "k \<noteq> []" "s \<noteq> []"
    and lic: "l \<in> set (hubLicenses db)" "hl_licenseKey l = k" "hl_hubSerial l = s"
      "hl_status l = ''active''"
    and ten: "t \<in> set (tenants db)" "t_id t = hl_tenantId l" "t_status t = ''active''"
    and past: "hl_expiresAt l = Some e" "e < now clock"
    and unique_key: "\<forall>l'\<in>set (hubLicenses db). hl_licenseKey l' = k \<longrightarrow> l' = l"
    and unique_id: "\<forall>t'\<in>set (tenants db). t_id t' = hl_tenantId l \<longrightarrow> t' = t"
  shows "authenticateHubLicense clock db req res = (db, Sent (send res 401 licenseExpired)) \<and>
         licenseExpired \<noteq> invalidHubLicense"
proof -
  have "(l, t) \<in> set (selectActiveLicense db k s)"
    using lic ten by (simp add: selectActiveLicense_def)
  moreover have "\<forall>y\<in>set (selectActiveLicense db k s). y = (l, t)"
    using unique_key unique_id by (auto simp: selectActiveLicense_def)
  ultimately have "firstRow (selectActiveLicense db k s) = Some (l, t)"
    by (rule firstRow_only)
  then show ?thesis
    using hdrs past
    by (simp add: authenticateHubLicense_def expired_def licenseExpired_def
        invalidHubLicense_def)
qed

theorem expired_license_rejected_witness:
  "hl_status licExpired = ''active'' \<and> hl_expiresAt licExpired = Some 500 \<and>
   500 < now clock0 \<and>
   authenticateHubLicense clock0 db0
       (hubRequest ''lk_2'' ''AO-ACME-002-k2'' ''/heartbeat'' ()) res0 =
     (db0, Sent (send res0 401 licenseExpired))"
proof -
  let ?req = "hubRequest ''lk_2'' ''AO-ACME-002-k2'' ''/heartbeat'' ()"
  have h: "rq_headers ?req ''x-license-key'' = Some ''lk_2''"
    "rq_headers ?req ''x-hub-serial'' = Some ''AO-ACME-002-k2''"
    "''lk_2'' \<noteq> []" "''AO-ACME-002-k2'' \<noteq> []"
    by (simp_all add: hubRequest_def)
  have l: "licExpired \<in> set (hubLicenses db0)" "hl_licenseKey licExpired = ''lk_2''"
    "hl_hubSerial licExpired = ''AO-ACME-002-k2''" "hl_status licExpired = ''active''"
    by (simp_all add: db0_def licExpired_def)
  have t: "acme \<in> set (tenants db0)" "t_id acme = hl_tenantId licExpired"
    "t_status acme = ''active''"
    by (simp_all add: db0_def acme_def licExpired_def)
  have p: "hl_expiresAt licExpired = Some 500" "500 < now clock0"
    by (simp_all add: licExpired_def clock0_def)
  have u1: "\<forall>l'\<in>set (hubLicenses db0). hl_licenseKey l' = ''lk_2'' \<longrightarrow> l' = licExpired"
    by (simp add: fixtures)
  have u2: "\<forall>t'\<in>set (tenants db0). t_id t' = hl_tenantId licExpired \<longrightarrow> t' = acme"
    by (simp add: fixtures)
  show ?thesis
    using expired_license_rejected [OF h l t p u1 u2, of res0] l(4) p by simp
qed

subsection \<open>The role guard\<close>

text \<open>
  C5. \<^verbatim>\<open>requireRole(minRole)\<close> works on the list viewer, user, manager, admin. With no
  user attached to the request it answers 403 (user authentication required), whatever
  the tenant and its tier; with a user whose role stands strictly before
  \<^verbatim>\<open>minRole\<close> in the list it answers 403 (insufficient permissions); otherwise it calls
  \<^verbatim>\<open>next\<close>. So \<^verbatim>\<open>requireRole("admin")\<close> rejects a manager and accepts an admin.
\<close>

theorem requireRole_compares_positions:
  "roleHierarchy = [''viewer'', ''user'', ''manager'', ''admin'']
   \<and> (attachedUser req = None \<longrightarrow>
        requireRole minRole req res = Sent (send res 403 userRequired))
   \<and> (attachedUser req = Some u \<and>
        indexOf roleHierarchy (tu_role u) < indexOf roleHierarchy minRole \<longrightarrow>
        requireRole minRole req res = Sent (send res 403 (insufficientRole minRole)))
   \<and> (attachedUser req = Some u \<and>
        \<not> indexOf roleHierarchy (tu_role u) < indexOf roleHierarchy minRole \<longrightarrow>
        requireRole minRole req res = Next req res)
   \<and> (attachedUser req = Some u \<and> tu_role u = ''manager'' \<longrightarrow>
        requireRole ''admin'' req res = Sent (send res 403 (insufficientRole ''admin'')))
   \<and> (attachedUser req = Some u \<and> tu_role u = ''admin'' \<longrightarrow>
        requireRole ''admin'' req res = Next req res)"
  by (simp add: requireRole_def roleHierarchy_def)

theorem requireRole_compares_positions_witness:
  "requireRole ''admin'' (withoutUser acme (apiKeyRequest ''ak_acme'' ''POST'' ''/hub-licenses'' ()))
       res0
     = Sent (send res0 403 userRequired)
   \<and> requireRole ''admin''
       (withUser acme ''manager'' (apiKeyRequest ''ak_acme'' ''POST'' ''/hub-licenses'' ())) res0
     = Sent (send res0 403 (insufficientRole ''admin''))
   \<and> requireRole ''admin''
       (withUser acme ''admin'' (apiKeyRequest ''ak_acme'' ''POST'' ''/hub-licenses'' ())) res0
     = Next (withUser acme ''admin'' (apiKeyRequest ''ak_acme'' ''POST'' ''/hub-licenses'' ()))
         res0"
  using requireRole_compares_positions
      [where req = "withoutUser acme (apiKeyRequest ''ak_acme'' ''POST'' ''/hub-licenses'' ())"
         and minRole = "''admin''" and res = res0]
    requireRole_compares_positions
      [where req = "withUser acme ''manager''
                      (apiKeyRequest ''ak_acme'' ''POST'' ''/hub-licenses'' ())"
         and u = "\<lparr>tu_id = 7, tu_email = ''pat@example.org'', tu_role = ''manager'',
                   tu_permissions = []\<rparr>"
         and minRole = "''admin''" and res = res0]
    requireRole_compares_positions
      [where req = "withUser acme ''admin''
                      (apiKeyRequest ''ak_acme'' ''POST'' ''/hub-licenses'' ())"
         and u = "\<lparr>tu_id = 7, tu_email = ''pat@example.org'', tu_role = ''admin'',
                   tu_permissions = []\<rparr>"
         and minRole = "''admin''" and res = res0]
  by (simp add: attachedUser_def withUser_def withoutUser_def)

text \<open>
  C10. A \<^verbatim>\<open>minRole\<close> that is not in the list has position -1, no role has a position
  below that, and \<^verbatim>\<open>requireRole(minRole)\<close> accepts every request with a user
  attached, whatever the user's role.
\<close>

theorem requireRole_unknown_minRole_accepts:
  "minRole \<notin> set roleHierarchy \<Longrightarrow> attachedUser req = Some u \<Longrightarrow>
     indexOf roleHierarchy minRole = - 1 \<and> requireRole minRole req res = Next req res"
  using indexOf_ge [of roleHierarchy "tu_role u"]
  by (simp add: requireRole_def indexOf_notin)

theorem requireRole_unknown_minRole_accepts_witness:
  "''owner'' \<notin> set roleHierarchy \<and>
   requireRole ''owner''
       (withUser acme ''intern'' (apiKeyRequest ''ak_acme'' ''POST'' ''/hub-licenses'' ())) res0
     = Next (withUser acme ''intern'' (apiKeyRequest ''ak_acme'' ''POST'' ''/hub-licenses'' ()))
         res0 \<and>
   requireRole ''owner''
       (withUser acme ''viewer'' (apiKeyRequest ''ak_acme'' ''POST'' ''/hub-licenses'' ())) res0
     = Next (withUser acme ''viewer'' (apiKeyRequest ''ak_acme'' ''POST'' ''/hub-licenses'' ()))
         res0"
proof -
  have m: "''owner'' \<notin> set roleHierarchy"
    by (simp add: roleHierarchy_def)
  have a: "attachedUser (withUser acme ''intern''
             (apiKeyRequest ''ak_acme'' ''POST'' ''/hub-licenses'' ()))
           = Some \<lparr>tu_id = 7, tu_email = ''pat@example.org'', tu_role = ''intern'',
                   tu_permissions = []\<rparr>"
    by (simp add: attachedUser_def withUser_def)
  have b: "attachedUser (withUser acme ''viewer''
             (apiKeyRequest ''ak_acme'' ''POST'' ''/hub-licenses'' ()))
           = Some \<lparr>tu_id = 7, tu_email = ''pat@example.org'', tu_role = ''viewer'',
                   tu_permissions = []\<rparr>"
    by (simp add: attachedUser_def withUser_def)
  show ?thesis
    using requireRole_unknown_minRole_accepts [OF m a, of res0]
      requireRole_unknown_minRole_accepts [OF m b, of res0] m
    by simp
qed

subsection \<open>Indistinguishable credential failures\<close>

text \<open>
  C6. Hub authentication answers one and the same 401 (invalid hub license, "not found or
  inactive") whether the license matching the key and serial is suspended or revoked,
  or its tenant is not active, or no license matches at all; the body never names the
  case. API-key authentication likewise answers one and the same 401 (invalid API key)
  for the key of a tenant that is not active and for a key no tenant holds. In every
  case the store is left as it was and \<^verbatim>\<open>next\<close> is not called. (A missing header and
  an expired license have bodies of their own.)
\<close>

theorem credential_failures_share_one_response:
  assumes hdrs: "rq_headers hreq ''x-license-key'' = Some k"
      "rq_headers hreq ''x-hub-serial'' = Some s" "k \<noteq> []" "s \<noteq> []"
    and inactive: "\<forall>l\<in>set (hubLicenses db). hl_licenseKey l = k \<and> hl_hubSerial l = s \<longrightarrow>
        hl_status l = ''suspended'' \<or> hl_status l = ''revoked'' \<or>
        (\<forall>t\<in>set (tenants db). t_id t = hl_tenantId l \<longrightarrow> t_status t \<noteq> ''active'')"
    and absent: "\<forall>l\<in>set (hubLicenses db'). hl_licenseKey l \<noteq> k \<or> hl_hubSerial l \<noteq> s"
    and key: "js_or (rq_headers areq ''x-api-key'') (rq_query areq ''api_key'') = Some a" "a \<noteq> []"
    and key_inactive: "\<forall>t\<in>set (tenants db). t_apiKey t = a \<longrightarrow> t_status t \<noteq> ''active''"
    and key_unknown: "\<forall>t\<in>set (tenants db'). t_apiKey t \<noteq> a"
  shows "authenticateHubLicense clock db hreq res = (db, Sent (send res 401 invalidHubLicense))
       \<and> authenticateHubLicense clock db' hreq res = (db', Sent (send res 401 invalidHubLicense))
       \<and> authenticateApiKey clock db areq res = (db, Sent (send res 401 invalidApiKey))
       \<and> authenticateApiKey clock db' areq res = (db', Sent (send res 401 invalidApiKey))"
proof -
  have "selectActiveLicense db k s = []"
    unfolding selectActiveLicense_def filter_empty_conv using inactive by auto
  moreover have "selectActiveLicense db' k s = []"
    unfolding selectActiveLicense_def filter_empty_conv using absent by auto
  moreover have "selectActiveTenantByApiKey db a = []"
    unfolding selectActiveTenantByApiKey_def filter_empty_conv using key_inactive by auto
  moreover have "selectActiveTenantByApiKey db' a = []"
    unfolding selectActiveTenantByApiKey_def filter_empty_conv using key_unknown by auto
  ultimately show ?thesis
    using hdrs key by (simp add: authenticateHubLicense_def authenticateApiKey_def firstRow_def)
qed

text \<open>
  A revoked license, and an active license of a suspended tenant, against a store with
  neither; a suspended tenant's key against a store without that tenant.
\<close>

theorem credential_failures_share_one_response_witness:
  "licRevoked \<in> set (hubLicenses db0) \<and> hl_status licRevoked = ''revoked'' \<and>
   snd (authenticateHubLicense clock0 db0 (hubRequest ''lk_3'' ''AO-ODD-001-k3'' ''/heartbeat'' ()) res0)
     = snd (authenticateHubLicense clock0 dbBare
              (hubRequest ''lk_3'' ''AO-ODD-001-k3'' ''/heartbeat'' ()) res0) \<and>
   licDormant \<in> set (hubLicenses db0) \<and> hl_status licDormant = ''active'' \<and>
   snd (authenticateHubLicense clock0 db0
          (hubRequest ''lk_4'' ''AO-DORMANT-001-k4'' ''/heartbeat'' ()) res0)
     = snd (authenticateHubLicense clock0 dbBare
              (hubRequest ''lk_4'' ''AO-DORMANT-001-k4'' ''/heartbeat'' ()) res0) \<and>
   snd (authenticateHubLicense clock0 db0
          (hubRequest ''lk_4'' ''AO-DORMANT-001-k4'' ''/heartbeat'' ()) res0)
     = Sent \<lparr>statusCode = 401, headers = [],
             json = ErrorMessage ''Invalid hub license''
                      ''License key/serial combination not found or inactive''\<rparr> \<and>
   snd (authenticateApiKey clock0 db0 (apiKeyRequest ''ak_dormant'' ''GET'' ''/info'' ()) res0)
     = snd (authenticateApiKey clock0 dbBare (apiKeyRequest ''ak_dormant'' ''GET'' ''/info'' ()) res0)"
proof -
  let ?h3 = "hubRequest ''lk_3'' ''AO-ODD-001-k3'' ''/heartbeat'' ()"
  let ?h4 = "hubRequest ''lk_4'' ''AO-DORMANT-001-k4'' ''/heartbeat'' ()"
  let ?a = "apiKeyRequest ''ak_dormant'' ''GET'' ''/info'' ()"
  have h3: "rq_headers ?h3 ''x-license-key'' = Some ''lk_3''"
    "rq_headers ?h3 ''x-hub-serial'' = Some ''AO-ODD-001-k3''"
    "''lk_3'' \<noteq> []" "''AO-ODD-001-k3'' \<noteq> []"
    by (simp_all add: hubRequest_def)
  have h4: "rq_headers ?h4 ''x-license-key'' = Some ''lk_4''"
    "rq_headers ?h4 ''x-hub-serial'' = Some ''AO-DORMANT-001-k4''"
    "''lk_4'' \<noteq> []" "''AO-DORMANT-001-k4'' \<noteq> []"
    by (simp_all add: hubRequest_def)
  have i3: "\<forall>l\<in>set (hubLicenses db0).
        hl_licenseKey l = ''lk_3'' \<and> hl_hubSerial l = ''AO-ODD-001-k3'' \<longrightarrow>
        hl_status l = ''suspended'' \<or> hl_status l = ''revoked'' \<or>
        (\<forall>t\<in>set (tenants db0). t_id t = hl_tenantId l \<longrightarrow> t_status t \<noteq> ''active'')"
    by (simp add: db0_def licValid_def licExpired_def licRevoked_def licDormant_def)
  have i4: "\<forall>l\<in>set (hubLicenses db0).
        hl_licenseKey l = ''lk_4'' \<and> hl_hubSerial l = ''AO-DORMANT-001-k4'' \<longrightarrow>
        hl_status l = ''suspended'' \<or> hl_status l = ''revoked'' \<or>
        (\<forall>t\<in>set (tenants db0). t_id t = hl_tenantId l \<longrightarrow> t_status t \<noteq> ''active'')"
    by (simp add: db0_def licValid_def licExpired_def licRevoked_def licDormant_def
        acme_def dormant_def closed_def oddTier_def)
  have a3: "\<forall>l\<in>set (hubLicenses dbBare).
        hl_licenseKey l \<noteq> ''lk_3'' \<or> hl_hubSerial l \<noteq> ''AO-ODD-001-k3''"
    and a4: "\<forall>l\<in>set (hubLicenses dbBare).
        hl_licenseKey l \<noteq> ''lk_4'' \<or> hl_hubSerial l \<noteq> ''AO-DORMANT-001-k4''"
    by (simp_all add: dbBare_def licValid_def)
  have k: "js_or (rq_headers ?a ''x-api-key'') (rq_query ?a ''api_key'') = Some ''ak_dormant''"
    "''ak_dormant'' \<noteq> []"
    by (simp_all add: apiKeyRequest_def js_or_def)
  have ki: "\<forall>t\<in>set (tenants db0). t_apiKey t = ''ak_dormant'' \<longrightarrow> t_status t \<noteq> ''active''"
    by (simp add: db0_def acme_def dormant_def closed_def oddTier_def)
  have ku: "\<forall>t\<in>set (tenants dbBare). t_apiKey t \<noteq> ''ak_dormant''"
    by (simp add: dbBare_def acme_def)
  have m: "licRevoked \<in> set (hubLicenses db0)" "hl_status licRevoked = ''revoked''"
    "licDormant \<in> set (hubLicenses db0)" "hl_status licDormant = ''active''"
    by (simp_all add: db0_def licRevoked_def licDormant_def)
  show ?thesis
    using credential_failures_share_one_response [OF h3 i3 a3 k ki ku, of clock0 res0]
      credential_failures_share_one_response [OF h4 i4 a4 k ki ku, of clock0 res0] m
    by (simp add: send_def res0_def invalidHubLicense_def)
qed

subsection \<open>Hub license issuance and the hub cap\<close>




subsection \<open>The issuance route cannot be reached\<close>




subsection \<open>Heartbeats register hubs without a cap\<close>

text \<open>
  An authenticated heartbeat for a serial without a hub row does not always register a
  hub: the body is not validated, and when it carries an address of 46 characters the
  store as declared refuses the row, the handler answers 500 and no hub is added.
\<close>

theorem heartbeat_refused_row_registers_nothing:
  "passed (snd (authenticateHubLicense clock0 db2
       (hubRequest ''lk_1'' ''AO-ACME-001-k1'' ''/heartbeat'' (Some longBeat)) res0)) \<and>
   selectHub db2 1 ''AO-ACME-001-k1'' = [] \<and>
   postHubHeartbeat declared clock0 db2
       (hubRequest ''lk_1'' ''AO-ACME-001-k1'' ''/heartbeat'' (Some longBeat)) res0 =
     (db2, Sent (send res0 500 heartbeatFailed))"
proof -
  have "hubHeartbeat declared clock0 db2
      (withoutUser acme (hubRequest ''lk_1'' ''AO-ACME-001-k1'' ''/heartbeat'' (Some longBeat)))
      res0 = (db2, Sent (send res0 500 heartbeatFailed))"
    by (simp add: hubHeartbeat_def withoutUser_def hubRequest_def acme_def no_hub_yet
        firstRow_def declared_def insert_long_refused)
  then show ?thesis
    by (simp add: postHubHeartbeat_def auth_valid_hub no_hub_yet)
qed

text \<open>
  C9, for heartbeats whose new row the store accepts. An authenticated heartbeat that
  carries a body, whose hub serial has no hub row for the tenant, is answered 201 and
  adds the one hub row the store returns; nothing in the step depends on
  \<^verbatim>\<open>maxHubs\<close> or on how many hubs the tenant has. A tenant that has \<^verbatim>\<open>maxHubs\<close> hub
  rows or more has strictly more than \<^verbatim>\<open>maxHubs\<close> afterwards.
\<close>

theorem heartbeat_registers_hub_without_cap_check:
  assumes auth: "authenticateHubLicense clock db req res = (db1, Next req1 res1)"
    and ctx: "rq_tenant req1 = Some ctx"
    and body: "rq_body req = Some b"
    and serial: "rq_headers req ''x-hub-serial'' = Some s"
    and new: "selectHub db (tenantId ctx) s = []"
    and stored: "insertHubRow pf db1 (newHubValues clock (tenantId ctx) s b) = Some h"
  shows "snd (postHubHeartbeat pf clock db req res) =
           Sent (send res 201 (HubJson (Some h) ''Hub registered''))
       \<and> tenantsHubs (fst (postHubHeartbeat pf clock db req res)) = tenantsHubs db @ [h]
       \<and> (h_tenantId h = tenantId ctx \<longrightarrow>
            countHubs (fst (postHubHeartbeat pf clock db req res)) (tenantId ctx) =
              countHubs db (tenantId ctx) + 1 \<and>
            (s_maxHubs (tenant ctx) \<le> countHubs db (tenantId ctx) \<longrightarrow>
               s_maxHubs (tenant ctx) <
                 countHubs (fst (postHubHeartbeat pf clock db req res)) (tenantId ctx)))"
proof -
  from authenticateHubLicense_Next [OF auth]
  have same: "res1 = res" "rq_headers req1 = rq_headers req" "rq_body req1 = rq_body req"
    "tenantsHubs db1 = tenantsHubs db"
    by simp_all
  have sel: "selectHub db1 (tenantId ctx) s = []"
    using new same by (simp add: selectHub_def)
  have "hubHeartbeat pf clock db1 req1 res1 =
          (db1\<lparr>tenantsHubs := tenantsHubs db1 @ [h]\<rparr>,
           Sent (send res 201 (HubJson (Some h) ''Hub registered'')))"
    using ctx body serial sel same stored by (simp add: hubHeartbeat_def firstRow_def)
  then show ?thesis
    using auth same by (simp add: postHubHeartbeat_def countHubs_def)
qed

text \<open>
  The first tenant may have two hubs and has two; a heartbeat of its valid license,
  whose serial neither hub carries, makes a third.
\<close>

theorem heartbeat_registers_hub_without_cap_check_witness:
  "countHubs db2 1 = t_maxHubs acme \<and>
   postHubHeartbeat declared clock0 db2
       (hubRequest ''lk_1'' ''AO-ACME-001-k1'' ''/heartbeat'' (Some beat)) res0 =
     (db2\<lparr>tenantsHubs := tenantsHubs db2 @ [hubNew]\<rparr>,
      Sent (send res0 201 (HubJson (Some hubNew) ''Hub registered''))) \<and>
   countHubs (fst (postHubHeartbeat declared clock0 db2
       (hubRequest ''lk_1'' ''AO-ACME-001-k1'' ''/heartbeat'' (Some beat)) res0)) 1 = 3 \<and>
   t_maxHubs acme < countHubs (fst (postHubHeartbeat declared clock0 db2
       (hubRequest ''lk_1'' ''AO-ACME-001-k1'' ''/heartbeat'' (Some beat)) res0)) 1"
proof -
  let ?req = "hubRequest ''lk_1'' ''AO-ACME-001-k1'' ''/heartbeat'' (Some beat)"
  let ?ctx = "\<lparr>tenantId = 1, tenant = snapshot acme, user = None\<rparr>"
  have c: "rq_tenant (withoutUser acme ?req) = Some ?ctx"
    by (simp add: withoutUser_def acme_def)
  have b: "rq_body ?req = Some beat"
    and s: "rq_headers ?req ''x-hub-serial'' = Some ''AO-ACME-001-k1''"
    by (simp_all add: hubRequest_def)
  have n: "selectHub db2 (tenantId ?ctx) ''AO-ACME-001-k1'' = []"
    by (simp add: no_hub_yet)
  have i: "insertHubRow declared db2 (newHubValues clock0 (tenantId ?ctx) ''AO-ACME-001-k1'' beat)
      = Some hubNew"
    by (simp add: declared_def insert_hubNew)
  have own: "h_tenantId hubNew = tenantId ?ctx"
    by (simp add: hubNew_def)
  note T = heartbeat_registers_hub_without_cap_check [OF auth_valid_hub c b s n i]
  have cap: "s_maxHubs (tenant ?ctx) \<le> countHubs db2 (tenantId ?ctx)"
    by (simp add: count_hubs_acme snapshot_def acme_def)
  have r1: "postHubHeartbeat declared clock0 db2 ?req res0 =
     (db2\<lparr>tenantsHubs := tenantsHubs db2 @ [hubNew]\<rparr>,
      Sent (send res0 201 (HubJson (Some hubNew) ''Hub registered'')))"
  proof -
    have "hubHeartbeat declared clock0 db2 (withoutUser acme ?req) res0 =
        (db2\<lparr>tenantsHubs := tenantsHubs db2 @ [hubNew]\<rparr>,
         Sent (send res0 201 (HubJson (Some hubNew) ''Hub registered'')))"
      by (simp add: hubHeartbeat_def withoutUser_def hubRequest_def acme_def no_hub_yet
          firstRow_def declared_def insert_hubNew)
    then show ?thesis
      by (simp add: postHubHeartbeat_def auth_valid_hub)
  qed
  have r2: "countHubs (fst (postHubHeartbeat declared clock0 db2 ?req res0)) 1 = 3"
    using T [THEN conjunct2, THEN conjunct2, rule_format, OF own, THEN conjunct1]
      count_hubs_acme by simp
  have r3: "t_maxHubs acme < countHubs (fst (postHubHeartbeat declared clock0 db2 ?req res0)) 1"
    using T [THEN conjunct2, THEN conjunct2, rule_format, OF own, THEN conjunct2, rule_format,
        OF cap]
    by (simp add: snapshot_def)
  have r0: "countHubs db2 1 = t_maxHubs acme"
    by (simp add: count_hubs_acme acme_def)
  show ?thesis
    by (intro conjI r0 r1 r2 r3)
qed

subsection \<open>The usage meter\<close>

text \<open>
  C4. The record statement names the conflict target (tenant, endpoint, method, month),
  on which \<^verbatim>\<open>api_usage\<close> declares no unique constraint, and sends for the new count
  the string that \<^verbatim>\<open>apiUsage.requestCount + 1\<close> evaluates to; the store rejects the
  statement each time and \<^verbatim>\<open>trackApiUsage\<close> swallows the error. Two record calls
  for one key, and two authenticated requests likewise, leave the table empty: no row
  ever counts 2.
\<close>

theorem usage_counter_never_reaches_two:
  "apiUsage db0 = [] \<and>
   apiUsage (trackApiUsage clock0
      (trackApiUsage clock0 db0
         (withoutUser acme (apiKeyRequest ''ak_acme'' ''GET'' ''/info'' ())) 1)
      (withoutUser acme (apiKeyRequest ''ak_acme'' ''GET'' ''/info'' ())) 1) = [] \<and>
   fst (authenticateApiKey clock0
          (fst (authenticateApiKey clock0 db0 (apiKeyRequest ''ak_acme'' ''GET'' ''/info'' ()) res0))
          (apiKeyRequest ''ak_acme'' ''GET'' ''/info'' ()) res0) = db0"
  by (simp add: trackApiUsage_def insertUsageOnConflictDoUpdate_def arbiterExists_def
      apiUsage_unique_def authenticateApiKey_def js_or_def selectActiveTenantByApiKey_def
      firstRow_def apiKeyRequest_def db0_def acme_def dormant_def closed_def oddTier_def)

subsection \<open>The rate limiter\<close>

text \<open>
  C7. A tenant whose tier is the string \<^verbatim>\<open>constructor\<close> authenticates like any other.
  The string is not in the table, but the lookup \<^verbatim>\<open>rateLimits[tier]\<close> yields the
  member every object inherits under that name; it is truthy, so the limit header carries
  it and not the default 100. The request is passed on all the same.
\<close>

theorem tierLimit_of_inherited_key:
  "authenticateApiKey clock0 db0 (apiKeyRequest ''ak_odd'' ''GET'' ''/info'' ()) res0 =
     (db0, Next (withoutUser oddTier (apiKeyRequest ''ak_odd'' ''GET'' ''/info'' ())) res0) \<and>
   map_of rateLimits ''constructor'' = None \<and>
   tierLimit ''constructor'' = JsInherited ''constructor'' \<and>
   tierLimit ''constructor'' \<noteq> JsNumber 100 \<and>
   rateLimitByTier (withoutUser oddTier (apiKeyRequest ''ak_odd'' ''GET'' ''/info'' ())) res0 =
     Next (withoutUser oddTier (apiKeyRequest ''ak_odd'' ''GET'' ''/info'' ()))
       \<lparr>res_headers = [(''X-RateLimit-Limit'', JsInherited ''constructor''),
                       (''X-RateLimit-Tier'', JsString ''constructor'')]\<rparr>"
proof -
  have "authenticateApiKey clock0 db0 (apiKeyRequest ''ak_odd'' ''GET'' ''/info'' ()) res0 =
     (db0, Next (withoutUser oddTier (apiKeyRequest ''ak_odd'' ''GET'' ''/info'' ())) res0)"
    by (simp add: authenticateApiKey_def js_or_def selectActiveTenantByApiKey_def
        firstRow_def trackApiUsage_swallowed withoutUser_def apiKeyRequest_def db0_def
        acme_def dormant_def closed_def oddTier_def)
  moreover have t: "map_of rateLimits ''constructor'' = None \<and>
      tierLimit ''constructor'' = JsInherited ''constructor''"
    by (simp add: tierLimit_def getProperty_def rateLimits_def objectPrototypeKeys_def)
  moreover have "list_all validHeaderChar ''constructor''"
    by (simp add: validHeaderChar_def)
  then have
    "rateLimitByTier (withoutUser oddTier (apiKeyRequest ''ak_odd'' ''GET'' ''/info'' ())) res0 =
     Next (withoutUser oddTier (apiKeyRequest ''ak_odd'' ''GET'' ''/info'' ()))
       \<lparr>res_headers = [(''X-RateLimit-Limit'', JsInherited ''constructor''),
                       (''X-RateLimit-Tier'', JsString ''constructor'')]\<rparr>"
    using t
    by (simp add: rateLimitByTier_context [where ctx = "\<lparr>tenantId = 4, tenant = snapshot oddTier,
          user = None\<rparr>"] withoutUser_def snapshot_def oddTier_def res0_def)
  ultimately show ?thesis by simp
qed

end
